theory Spec2Isabelle
  imports Complex_Main
begin

section \<open>L-shape stone volume calculator: the model\<close>

text \<open>
  The calculator is a browser script. Its numbers are JavaScript Numbers; they are
  modelled here as mathematical reals (a quantity, read with \<open>parseInt\<close>, as an
  integer), so every statement below is about the arithmetic the script writes down,
  not about the rounding of IEEE doubles. The input fields are strings read with the
  built-ins \<open>parseFloat\<close> and \<open>parseInt\<close>; the model starts from what these
  built-ins return, which is either \<open>NaN\<close> or a number. The two infinities, which
  \<open>parseFloat\<close> returns on the text \<open>Infinity\<close>, are outside the model.
\<close>

subsection \<open>Input fields and \<open>getValues\<close>\<close>

datatype 'a parsed = NaN | Num 'a

text \<open>
  JavaScript's \<open>x || d\<close> on a number: the result is \<open>d\<close> when \<open>x\<close> is falsy
  (\<open>NaN\<close> or zero) and \<open>x\<close> otherwise.
\<close>

definition or_default :: "'a::zero parsed \<Rightarrow> 'a \<Rightarrow> 'a" where
  "or_default p d = (case p of NaN \<Rightarrow> d | Num x \<Rightarrow> if x = 0 then d else x)"

text \<open>
  The form: what \<open>parseFloat\<close> returns on each of the six dimension fields, what
  \<open>parseInt(_, 10)\<close> returns on the quantity field, and whether the bullnose radio
  button is checked.
\<close>

record form =
  length_field :: "real parsed"
  width_field :: "real parsed"
  flatThickness_field :: "real parsed"
  lipWidth_field :: "real parsed"
  lipHeight_field :: "real parsed"
  chamfer_field :: "real parsed"
  quantity_field :: "int parsed"
  edgeBullnose_checked :: bool

datatype edge_type = Chamfer | Bullnose

definition getEdgeType :: "form \<Rightarrow> edge_type" where
  "getEdgeType f = (if edgeBullnose_checked f then Bullnose else Chamfer)"

record vals =
  L :: real
  W :: real
  T :: real
  Lw :: real
  Lh :: real
  Tr :: real
  qty :: int
  edge :: edge_type

definition getValues :: "form \<Rightarrow> vals" where
  "getValues f =
     \<lparr> L = or_default (length_field f) 0,
       W = or_default (width_field f) 0,
       T = or_default (flatThickness_field f) 0,
       Lw = or_default (lipWidth_field f) 0,
       Lh = or_default (lipHeight_field f) 0,
       Tr = or_default (chamfer_field f) 0,
       qty = or_default (quantity_field f) 1,
       edge = getEdgeType f \<rparr>"

subsection \<open>\<open>formatVolume\<close>\<close>

text \<open>
  The displayed text of a volume: the placeholder dash, a number in scientific notation
  (\<open>toExponential(4)\<close>) or a number in fixed notation (\<open>toFixed(6)\<close>), each followed
  by the unit. The digits of the two number formats are not modelled; the constructor
  carries the value in cubic metres that is formatted.
\<close>

datatype display = Dash | Exponential real | Fixed real

definition formatVolume :: "real \<Rightarrow> display" where
  "formatVolume mm3 =
     (let m3 = mm3 / 1000000000 in
      if m3 = 0 then Dash
      else if m3 < 0.0001 then Exponential m3
      else Fixed m3)"

subsection \<open>\<open>validate\<close>\<close>

text \<open>
  One constructor for each message that \<open>validate\<close> can push, in the order of the
  source:
  \<^item> \<open>LengthNotPositive\<close>: "Length (L) must be greater than 0."
  \<^item> \<open>WidthNotPositive\<close>: "Total Width (W) must be greater than 0."
  \<^item> \<open>ThicknessNotPositive\<close>: "Flat Thickness (T) must be greater than 0."
  \<^item> \<open>LipWidthNotPositive\<close>: "Lip Width (Lw) must be greater than 0."
  \<^item> \<open>LipHeightNotPositive\<close>: "Lip Drop Height (Lh) must be greater than 0."
  \<^item> \<open>TrNegative\<close>: "Tr cannot be negative."
  \<^item> \<open>QuantityBelowOne\<close>: "Quantity must be at least 1."
  \<^item> \<open>TrNotBelowThickness\<close>: "Tr must be less than Flat Thickness (T)."
  \<^item> \<open>LipWidthNotBelowWidth\<close>: "Lip Width (Lw) must be less than Total Width (W)."
\<close>

datatype violation =
    LengthNotPositive
  | WidthNotPositive
  | ThicknessNotPositive
  | LipWidthNotPositive
  | LipHeightNotPositive
  | TrNegative
  | QuantityBelowOne
  | TrNotBelowThickness
  | LipWidthNotBelowWidth

text \<open>
  The local array \<open>errors\<close> of \<open>validate\<close>: nine \<open>if\<close> statements in sequence,
  each pushing its message when its condition holds.
\<close>

definition validate_errors :: "form \<Rightarrow> violation list" where
  "validate_errors f =
     (let v = getValues f in
        (if L v \<le> 0 then [LengthNotPositive] else [])
      @ (if W v \<le> 0 then [WidthNotPositive] else [])
      @ (if T v \<le> 0 then [ThicknessNotPositive] else [])
      @ (if Lw v \<le> 0 then [LipWidthNotPositive] else [])
      @ (if Lh v \<le> 0 then [LipHeightNotPositive] else [])
      @ (if Tr v < 0 then [TrNegative] else [])
      @ (if qty v < 1 then [QuantityBelowOne] else [])
      @ (if Tr v > 0 \<and> T v > 0 \<and> Tr v \<ge> T v then [TrNotBelowThickness] else [])
      @ (if Lw v > 0 \<and> W v > 0 \<and> Lw v \<ge> W v then [LipWidthNotBelowWidth] else []))"

text \<open>The boolean that \<open>validate\<close> returns: \<open>errors.length > 0\<close> gives false.\<close>

definition validate :: "form \<Rightarrow> bool" where
  "validate f = (\<not> (length (validate_errors f) > 0))"

subsection \<open>\<open>calculate\<close>\<close>

definition baseVol :: "vals \<Rightarrow> real" where
  "baseVol v = L v * (W v * T v + Lw v * Lh v)"

definition edgeVol :: "vals \<Rightarrow> real" where
  "edgeVol v =
     (if edge v = Chamfer then 0.5 * Tr v * Tr v * L v
      else Tr v * Tr v * (1 - pi / 4) * L v)"

definition volOne :: "vals \<Rightarrow> real" where
  "volOne v = max 0 (baseVol v - edgeVol v)"

definition volTotal :: "vals \<Rightarrow> real" where
  "volTotal v = volOne v * real_of_int (qty v)"

text \<open>
  What \<open>calculate\<close> writes into the two result elements \<open>volumeOne\<close> and
  \<open>volumeTotal\<close>. When \<open>validate\<close> fails both get the dash and nothing is computed.
\<close>

record results =
  volumeOne :: display
  volumeTotal :: display

definition calculate :: "form \<Rightarrow> results" where
  "calculate f =
     (if \<not> validate f then \<lparr> volumeOne = Dash, volumeTotal = Dash \<rparr>
      else let v = getValues f in
        \<lparr> volumeOne = formatVolume (volOne v), volumeTotal = formatVolume (volTotal v) \<rparr>)"

subsection \<open>The older script \<open>app.js\<close> (chamfer only, no validation)\<close>

record app_form =
  app_length_field :: "real parsed"
  app_width_field :: "real parsed"
  app_flatThickness_field :: "real parsed"
  app_lipWidth_field :: "real parsed"
  app_lipHeight_field :: "real parsed"
  app_chamfer_field :: "real parsed"
  app_quantity_field :: "int parsed"

record app_vals =
  app_L :: real
  app_W :: real
  app_T :: real
  app_Lw :: real
  app_Lh :: real
  app_C :: real
  app_qty :: int

definition app_getValues :: "app_form \<Rightarrow> app_vals" where
  "app_getValues f =
     \<lparr> app_L = or_default (app_length_field f) 0,
       app_W = or_default (app_width_field f) 0,
       app_T = or_default (app_flatThickness_field f) 0,
       app_Lw = or_default (app_lipWidth_field f) 0,
       app_Lh = or_default (app_lipHeight_field f) 0,
       app_C = or_default (app_chamfer_field f) 0,
       app_qty = or_default (app_quantity_field f) 1 \<rparr>"

definition app_baseVol :: "app_vals \<Rightarrow> real" where
  "app_baseVol v = app_L v * (app_W v * app_T v + app_Lw v * app_Lh v)"

definition app_chamferVol :: "app_vals \<Rightarrow> real" where
  "app_chamferVol v = 0.5 * app_C v * app_C v * app_L v"

definition app_volOne :: "app_vals \<Rightarrow> real" where
  "app_volOne v = max 0 (app_baseVol v - app_chamferVol v)"

definition app_volTotal :: "app_vals \<Rightarrow> real" where
  "app_volTotal v = app_volOne v * real_of_int (app_qty v)"

definition app_calculate :: "app_form \<Rightarrow> results" where
  "app_calculate f =
     (let v = app_getValues f in
        \<lparr> volumeOne = formatVolume (app_volOne v),
          volumeTotal = formatVolume (app_volTotal v) \<rparr>)"

subsection \<open>Cross-section of the isometric view: \<open>csTop\<close> in \<open>drawIsometric\<close>\<close>

definition segments :: nat where
  "segments = 12"

text \<open>The point pushed by iteration \<open>i\<close> of the loop \<open>for (i = 0; i <= segments; i++)\<close>.\<close>

definition arcPoint :: "vals \<Rightarrow> nat \<Rightarrow> real \<times> real" where
  "arcPoint v i =
     (let angle = (pi / 2) * (real i / real segments) in
        (W v - Tr v + Tr v * sin angle, T v - Tr v + Tr v * cos angle))"

definition csTop :: "vals \<Rightarrow> (real \<times> real) list" where
  "csTop v =
     (if Tr v > 0 then
        (if edge v = Bullnose then
           [(0, T v)]
           @ map (arcPoint v) [0 ..< Suc segments]
           @ [(W v, - Lh v), (W v - Lw v, - Lh v), (W v - Lw v, 0), (0, 0)]
         else
           [(0, T v), (W v - Tr v, T v), (W v, T v - Tr v),
            (W v, - Lh v), (W v - Lw v, - Lh v), (W v - Lw v, 0), (0, 0)])
      else
        [(0, T v), (W v, T v),
         (W v, - Lh v), (W v - Lw v, - Lh v), (W v - Lw v, 0), (0, 0)])"

text \<open>\<open>drawIsometric\<close> returns before building anything when \<open>W\<close>, \<open>T\<close> or \<open>L\<close> is not positive.\<close>

definition drawIsometric_csTop :: "form \<Rightarrow> (real \<times> real) list option" where
  "drawIsometric_csTop f =
     (let v = getValues f in
      if W v \<le> 0 \<or> T v \<le> 0 \<or> L v \<le> 0 then None else Some (csTop v))"

subsection \<open>Outline of the 2D view: \<open>path\<close> in \<open>drawCrossSection\<close>\<close>

text \<open>
  The commands of the SVG path: move to, line to, the elliptic arc
  \<open>A rx ry 0 0 1 x y\<close> (rotation and flags are the constants of the source) and close.
\<close>

datatype path_cmd = MoveTo real real | LineTo real real | ArcTo real real real real | ClosePath

text \<open>
  The drawing scale. \<open>drawCrossSection\<close> computes it only after its guard, so \<open>W\<close> is
  positive there. When \<open>T + Lh\<close> is zero the script divides 340 by zero, which is
  \<open>Infinity\<close> in JavaScript, and the minimum is then the other quotient; the model
  writes that case out.
\<close>

definition scale :: "vals \<Rightarrow> real" where
  "scale v =
     (let svgW = 700; svgH = 500; pad = 80;
          drawW = svgW - pad * 2; drawH = svgH - pad * 2;
          totalH = T v + Lh v
      in (if totalH = 0 then drawW / W v else min (drawW / W v) (drawH / totalH)) * 0.75)"

definition sTr :: "vals \<Rightarrow> real" where
  "sTr v = Tr v * scale v"

definition path :: "vals \<Rightarrow> path_cmd list" where
  "path v =
     (let svgW = 700; svgH = 500;
          sW = W v * scale v; sT = T v * scale v;
          sLw = Lw v * scale v; sLh = Lh v * scale v;
          totalShapeH = sT + sLh;
          ox = (svgW - sW) / 2; oy = (svgH - totalShapeH) / 2;
          lipLeftX = ox + sW - sLw
      in
      if sTr v > 0.5 then
        (if edge v = Bullnose then
           [MoveTo ox oy,
            LineTo (ox + sW - sTr v) oy,
            ArcTo (sTr v) (sTr v) (ox + sW) (oy + sTr v),
            LineTo (ox + sW) (oy + sT + sLh),
            LineTo lipLeftX (oy + sT + sLh),
            LineTo lipLeftX (oy + sT),
            LineTo ox (oy + sT),
            ClosePath]
         else
           [MoveTo ox oy,
            LineTo (ox + sW - sTr v) oy,
            LineTo (ox + sW) (oy + sTr v),
            LineTo (ox + sW) (oy + sT + sLh),
            LineTo lipLeftX (oy + sT + sLh),
            LineTo lipLeftX (oy + sT),
            LineTo ox (oy + sT),
            ClosePath])
      else
        [MoveTo ox oy,
         LineTo (ox + sW) oy,
         LineTo (ox + sW) (oy + sT + sLh),
         LineTo lipLeftX (oy + sT + sLh),
         LineTo lipLeftX (oy + sT),
         LineTo ox (oy + sT),
         ClosePath])"

text \<open>\<open>drawCrossSection\<close> returns before building the path when \<open>W\<close> or \<open>T\<close> is not positive.\<close>

definition drawCrossSection_path :: "form \<Rightarrow> path_cmd list option" where
  "drawCrossSection_path f =
     (let v = getValues f in
      if W v \<le> 0 \<or> T v \<le> 0 then None else Some (path v))"

text \<open>The vertices of a path: every command that names a point.\<close>

fun is_vertex :: "path_cmd \<Rightarrow> bool" where
  "is_vertex ClosePath = False"
| "is_vertex _ = True"

definition vertex_count :: "path_cmd list \<Rightarrow> nat" where
  "vertex_count p = length (filter is_vertex p)"

subsection \<open>The auto-fit button\<close>

text \<open>JavaScript's \<open>Math.round\<close>: the nearest integer, a tie going up.\<close>

definition js_round :: "real \<Rightarrow> int" where
  "js_round x = \<lfloor>x + 1 / 2\<rfloor>"

text \<open>The local constant \<open>Tr\<close> of the click handler.\<close>

definition autoFit_Tr :: "real \<Rightarrow> real \<Rightarrow> real" where
  "autoFit_Tr lw t = lw + t - sqrt (2 * lw * t)"

text \<open>
  The click handler: it reads the lip width and the flat thickness itself, and when
  both are positive it stores \<open>Math.round(Tr)\<close> in the edge-depth field (read back by
  \<open>parseFloat\<close> as that integer); otherwise the form is unchanged.
\<close>

definition autoFit :: "form \<Rightarrow> form" where
  "autoFit f =
     (let lw = or_default (lipWidth_field f) 0;
          t = or_default (flatThickness_field f) 0
      in if lw > 0 \<and> t > 0
         then f\<lparr> chamfer_field := Num (real_of_int (js_round (autoFit_Tr lw t))) \<rparr>
         else f)"

subsection \<open>The checks of \<open>validate\<close> in source order\<close>


subsection \<open>Concrete inputs\<close>

text \<open>A form whose six dimension fields all hold numbers.\<close>

definition mk_form :: "real \<Rightarrow> real \<Rightarrow> real \<Rightarrow> real \<Rightarrow> real \<Rightarrow> real \<Rightarrow> int parsed \<Rightarrow> bool \<Rightarrow> form" where
  "mk_form l w t lw lh tr q b =
     \<lparr> length_field = Num l, width_field = Num w, flatThickness_field = Num t,
       lipWidth_field = Num lw, lipHeight_field = Num lh, chamfer_field = Num tr,
       quantity_field = q, edgeBullnose_checked = b \<rparr>"

text \<open>
  The scenario of the documentation (\<open>L = 1000\<close>, \<open>W = 700\<close>, \<open>T = 100\<close>,
  \<open>Lw = 150\<close>, \<open>Lh = 200\<close>, \<open>Tr = 50\<close>, one piece) with either edge type, as a
  batch of three pieces, and with edge depth zero.
\<close>

definition example_chamfer :: form where
  "example_chamfer = mk_form 1000 700 100 150 200 50 (Num 1) False"

definition example_bullnose :: form where
  "example_bullnose = mk_form 1000 700 100 150 200 50 (Num 1) True"

definition example_batch :: form where
  "example_batch = mk_form 1000 700 100 150 200 50 (Num 3) False"

definition example_sharp :: form where
  "example_sharp = mk_form 1000 700 100 150 200 0 (Num 1) True"

text \<open>The same batch of three pieces in the form of the older script.\<close>

definition example_app_batch :: app_form where
  "example_app_batch =
     \<lparr> app_length_field = Num 1000, app_width_field = Num 700,
       app_flatThickness_field = Num 100, app_lipWidth_field = Num 150,
       app_lipHeight_field = Num 200, app_chamfer_field = Num 50,
       app_quantity_field = Num 3 \<rparr>"




text \<open>
  Inputs for the auto-fit button (lip width and flat thickness both 100), for the
  quantity field (parsed as 0, parsed as -2) and for a slab narrower than its edge depth
  (\<open>L = 1000\<close>, \<open>W = 1\<close>, \<open>T = 100\<close>, \<open>Lw = 0.5\<close>, \<open>Lh = 1\<close>, \<open>Tr = 99\<close>).
\<close>

definition example_autofit :: form where
  "example_autofit = mk_form 1000 700 100 100 200 0 (Num 1) True"

definition example_zero_quantity :: form where
  "example_zero_quantity = mk_form 1000 700 100 150 200 50 (Num 0) False"

definition example_negative_quantity :: form where
  "example_negative_quantity = mk_form 1000 700 100 150 200 50 (Num (- 2)) False"

definition example_thin :: form where
  "example_thin = mk_form 1000 1 100 0.5 1 99 (Num 1) False"

section \<open>Auxiliary facts\<close>

subsection \<open>Reading the form\<close>

lemma or_default_zero [simp]: "or_default (Num x) 0 = x"
  by (simp add: or_default_def)

lemma or_default_NaN [simp]: "or_default NaN d = d"
  by (simp add: or_default_def)

lemma or_default_Num: "or_default (Num x) d = (if x = 0 then d else x)"
  by (simp add: or_default_def)

lemma getValues_mk_form:
  "getValues (mk_form l w t lw lh tr q b) =
     \<lparr> L = l, W = w, T = t, Lw = lw, Lh = lh, Tr = tr,
       qty = or_default q 1, edge = (if b then Bullnose else Chamfer) \<rparr>"
  by (simp add: getValues_def mk_form_def getEdgeType_def)

lemma if_single_Nil: "((if c then [x] else []) = []) = (\<not> c)"
  by simp

lemma set_if_single: "(y \<in> set (if c then [x] else [])) = (c \<and> y = x)"
  by (cases c) simp_all

lemma validate_iff:
  "validate f \<longleftrightarrow>
     0 < L (getValues f) \<and> 0 < W (getValues f) \<and> 0 < T (getValues f) \<and>
     0 < Lw (getValues f) \<and> 0 < Lh (getValues f) \<and> 0 \<le> Tr (getValues f) \<and>
     1 \<le> qty (getValues f) \<and> Tr (getValues f) < T (getValues f) \<and>
     Lw (getValues f) < W (getValues f)"
  unfolding validate_def validate_errors_def Let_def length_greater_0_conv
    not_not append_is_Nil_conv if_single_Nil
  by auto

lemma baseVol_pos:
  assumes "validate f"
  shows "0 < baseVol (getValues f)"
  using assms unfolding validate_iff baseVol_def
  by (simp add: add_pos_pos)


lemma validate_mk_form:
  "validate (mk_form l w t lw lh tr q b) \<longleftrightarrow>
     0 < l \<and> 0 < w \<and> 0 < t \<and> 0 < lw \<and> 0 < lh \<and> 0 \<le> tr \<and>
     1 \<le> or_default q 1 \<and> tr < t \<and> lw < w"
  unfolding validate_iff getValues_mk_form by simp

lemma calculate_valid:
  assumes "validate f"
  shows "calculate f =
     \<lparr> volumeOne = formatVolume (volOne (getValues f)),
       volumeTotal = formatVolume (volTotal (getValues f)) \<rparr>"
  using assms by (simp add: calculate_def Let_def)


subsection \<open>Bounds on \<open>pi\<close> from Machin's formula\<close>

text \<open>
  The partial sums of the alternating arc tangent series enclose its limit; with
  Machin's formula this gives \<open>pi\<close> to six decimals.
\<close>

lemma arctan_partial_sums:
  fixes x :: real
  assumes "0 < x" "x \<le> 1"
  shows "(\<Sum>i<2*n. (- 1)^i * (1 / real (i * 2 + 1) * x ^ (i * 2 + 1))) \<le> arctan x"
    and "arctan x \<le> (\<Sum>i<2*n+1. (- 1)^i * (1 / real (i * 2 + 1) * x ^ (i * 2 + 1)))"
proof -
  have ax: "\<bar>x\<bar> \<le> 1" using assms by simp
  have pos: "0 < 1 / real (0 * 2 + 1) * x ^ (0 * 2 + 1)" using assms by simp
  from summable_Leibniz(2)[OF zeroseq_arctan_series[OF ax] monoseq_arctan_series[OF ax]] pos
  have "(\<Sum>i. (- 1)^i * (1 / real (i * 2 + 1) * x ^ (i * 2 + 1)))
      \<in> {\<Sum>i<2*n. (- 1)^i * (1 / real (i * 2 + 1) * x ^ (i * 2 + 1)) ..
          \<Sum>i<2*n+1. (- 1)^i * (1 / real (i * 2 + 1) * x ^ (i * 2 + 1))}"
    by blast
  then show "(\<Sum>i<2*n. (- 1)^i * (1 / real (i * 2 + 1) * x ^ (i * 2 + 1))) \<le> arctan x"
    and "arctan x \<le> (\<Sum>i<2*n+1. (- 1)^i * (1 / real (i * 2 + 1) * x ^ (i * 2 + 1)))"
    using arctan_series[OF ax] by simp_all
qed

lemma arctan_fifth_lower: "(19739555 / 100000000 :: real) \<le> arctan (1 / 5)"
  using arctan_partial_sums(1)[of "1/5" 3]
  by (simp add: eval_nat_numeral)

lemma arctan_fifth_upper: "arctan (1 / 5) \<le> (19739557 / 100000000 :: real)"
  using arctan_partial_sums(2)[of "1/5" 2]
  by (simp add: eval_nat_numeral)

lemma arctan_239_lower: "(418407 / 100000000 :: real) \<le> arctan (1 / 239)"
  using arctan_partial_sums(1)[of "1/239" 1]
  by (simp add: eval_nat_numeral)

lemma arctan_239_upper: "arctan (1 / 239) \<le> (1 / 239 :: real)"
  using arctan_partial_sums(2)[of "1/239" 0]
  by (simp add: eval_nat_numeral)

lemma pi_bounds: "3.141592 < pi" "pi < 3.141593"
proof -
  have eq: "pi = 16 * arctan (1 / 5) - 4 * arctan (1 / 239)"
    using machin by simp
  show "3.141592 < pi"
    using arctan_fifth_lower arctan_239_upper unfolding eq by simp
  show "pi < 3.141593"
    using arctan_fifth_upper arctan_239_lower unfolding eq by simp
qed


subsection \<open>The documented bullnose scenario\<close>

lemma edgeVol_example_bullnose:
  "edgeVol (getValues example_bullnose) = 2500000 - 625000 * pi"
  by (simp add: example_bullnose_def getValues_mk_form edgeVol_def algebra_simps)

lemma baseVol_example_bullnose:
  "baseVol (getValues example_bullnose) = 100000000"
  by (simp add: example_bullnose_def getValues_mk_form baseVol_def)

lemma validate_example_bullnose: "validate example_bullnose"
  by (simp add: example_bullnose_def validate_mk_form or_default_Num)

subsection \<open>The list of violations\<close>


lemma validate_errors_mk_form:
  "validate_errors (mk_form l w t lw lh tr q b) =
        (if l \<le> 0 then [LengthNotPositive] else [])
      @ (if w \<le> 0 then [WidthNotPositive] else [])
      @ (if t \<le> 0 then [ThicknessNotPositive] else [])
      @ (if lw \<le> 0 then [LipWidthNotPositive] else [])
      @ (if lh \<le> 0 then [LipHeightNotPositive] else [])
      @ (if tr < 0 then [TrNegative] else [])
      @ (if or_default q 1 < 1 then [QuantityBelowOne] else [])
      @ (if tr > 0 \<and> t > 0 \<and> tr \<ge> t then [TrNotBelowThickness] else [])
      @ (if lw > 0 \<and> w > 0 \<and> lw \<ge> w then [LipWidthNotBelowWidth] else [])"
  unfolding validate_errors_def Let_def getValues_mk_form
  by (simp split del: if_split)

lemma member_validate_errors:
  "LengthNotPositive \<in> set (validate_errors f) \<longleftrightarrow> L (getValues f) \<le> 0"
  "WidthNotPositive \<in> set (validate_errors f) \<longleftrightarrow> W (getValues f) \<le> 0"
  "ThicknessNotPositive \<in> set (validate_errors f) \<longleftrightarrow> T (getValues f) \<le> 0"
  "LipWidthNotPositive \<in> set (validate_errors f) \<longleftrightarrow> Lw (getValues f) \<le> 0"
  "LipHeightNotPositive \<in> set (validate_errors f) \<longleftrightarrow> Lh (getValues f) \<le> 0"
  "TrNegative \<in> set (validate_errors f) \<longleftrightarrow> Tr (getValues f) < 0"
  "QuantityBelowOne \<in> set (validate_errors f) \<longleftrightarrow> qty (getValues f) < 1"
  "TrNotBelowThickness \<in> set (validate_errors f) \<longleftrightarrow>
     0 < Tr (getValues f) \<and> 0 < T (getValues f) \<and> T (getValues f) \<le> Tr (getValues f)"
  "LipWidthNotBelowWidth \<in> set (validate_errors f) \<longleftrightarrow>
     0 < Lw (getValues f) \<and> 0 < W (getValues f) \<and> W (getValues f) \<le> Lw (getValues f)"
  unfolding validate_errors_def Let_def set_append Un_iff set_if_single
  by simp_all


subsection \<open>The auto-fit radius\<close>

lemma sqrt_20000_bounds: "141.421 < sqrt 20000" "sqrt 20000 < 141.422"
proof -
  show "141.421 < sqrt 20000"
    by (rule real_less_rsqrt) (simp add: power2_eq_square)
  show "sqrt 20000 < 141.422"
    by (rule real_less_lsqrt) (simp_all add: power2_eq_square)
qed

lemma autoFit_Tr_100: "autoFit_Tr 100 100 = 200 - sqrt 20000"
  by (simp add: autoFit_Tr_def)

lemma js_round_autoFit_100: "js_round (autoFit_Tr 100 100) = 59"
  unfolding js_round_def autoFit_Tr_100 floor_eq_iff
  using sqrt_20000_bounds by simp

lemma autoFit_mk_form:
  assumes "0 < lw" and "0 < t"
  shows "autoFit (mk_form l w t lw lh tr q b)
         = mk_form l w t lw lh (real_of_int (js_round (autoFit_Tr lw t))) q b"
  using assms by (simp add: autoFit_def mk_form_def Let_def)

lemma autoFit_Tr_nonneg:
  assumes "0 < lw" and "0 < t"
  shows "0 \<le> autoFit_Tr lw t"
proof -
  have "2 * lw * t \<le> (lw + t)\<^sup>2"
    using assms by (simp add: power2_eq_square algebra_simps)
  then have "sqrt (2 * lw * t) \<le> lw + t"
    using assms by (intro real_le_lsqrt) simp_all
  then show ?thesis by (simp add: autoFit_Tr_def)
qed

lemma autoFit_Tr_roundtrip:
  assumes "0 < lw" and "0 < t"
  shows "sqrt ((lw - autoFit_Tr lw t)\<^sup>2 + (t - autoFit_Tr lw t)\<^sup>2) = autoFit_Tr lw t"
proof -
  define s where "s = sqrt (2 * lw * t)"
  have s2: "s\<^sup>2 = 2 * lw * t"
    unfolding s_def using assms by simp
  have tr: "autoFit_Tr lw t = lw + t - s"
    by (simp add: autoFit_Tr_def s_def)
  have "(lw - (lw + t - s))\<^sup>2 + (t - (lw + t - s))\<^sup>2 = 2 * s\<^sup>2 - 2 * s * (lw + t) + lw\<^sup>2 + t\<^sup>2"
    by (simp add: power2_eq_square algebra_simps)
  also have "\<dots> = s\<^sup>2 - 2 * s * (lw + t) + (lw\<^sup>2 + 2 * lw * t + t\<^sup>2)"
    using s2 by simp
  also have "\<dots> = (lw + t - s)\<^sup>2"
    by (simp add: power2_eq_square algebra_simps)
  finally have "(lw - autoFit_Tr lw t)\<^sup>2 + (t - autoFit_Tr lw t)\<^sup>2 = (autoFit_Tr lw t)\<^sup>2"
    unfolding tr .
  then have "sqrt ((lw - autoFit_Tr lw t)\<^sup>2 + (t - autoFit_Tr lw t)\<^sup>2) = \<bar>autoFit_Tr lw t\<bar>"
    by simp
  then show ?thesis
    using autoFit_Tr_nonneg [OF assms] by simp
qed

subsection \<open>Vertex counts\<close>

lemma scale_documented: "scale \<lparr> L = 1000, W = 700, T = 100, Lw = 150, Lh = 200, Tr = tr, qty = q, edge = e \<rparr> = 81 / 140"
  by (simp add: scale_def Let_def)

lemma length_csTop:
  "length (csTop v) =
     (if Tr v > 0 then (if edge v = Bullnose then 6 + segments else 6 + 1) else 6)"
  by (simp add: csTop_def)

lemma vertex_count_path:
  "vertex_count (path v) = (if sTr v > 0.5 then 6 + 1 else 6)"
  by (simp add: path_def vertex_count_def Let_def)

lemma arcPoint_ends:
  "arcPoint v 0 = (W v - Tr v, T v)"
  "arcPoint v segments = (W v, T v - Tr v)"
  by (simp_all add: arcPoint_def segments_def)

subsection \<open>The quantity default\<close>

lemma getValues_quantity_default:
  assumes "quantity_field f = NaN \<or> quantity_field f = Num 0"
  shows "getValues f = getValues (f\<lparr>quantity_field := Num 1\<rparr>)"
  using assms by (auto simp: getValues_def getEdgeType_def or_default_def)

section \<open>The claims\<close>

text \<open>
  C1. For every validated parameter set whose edge type is chamfer, the single-unit
  volume is \<open>max(0, L (W T + Lw Lh) - Tr\<^sup>2 L / 2)\<close>, and this is what \<open>calculate\<close>
  formats into the result element. The removed volume is \<open>Tr\<^sup>2 L / 2\<close> with \<open>Tr\<close> the
  leg; putting the hypotenuse \<open>Tr sqrt 2\<close> in place of the leg gives exactly twice that.
  The older script computes the same expression from its field \<open>C\<close>. For \<open>L = 1000\<close>,
  \<open>W = 700\<close>, \<open>T = 100\<close>, \<open>Lw = 150\<close>, \<open>Lh = 200\<close>, \<open>Tr = 50\<close> the volume is
  98,750,000 cubic millimetres.
\<close>

theorem chamfer_volume:
  assumes "validate f" and "edge (getValues f) = Chamfer"
  shows "volOne (getValues f) =
           max 0 (L (getValues f) * (W (getValues f) * T (getValues f)
                    + Lw (getValues f) * Lh (getValues f))
                  - 1 / 2 * (Tr (getValues f))\<^sup>2 * L (getValues f))
       \<and> volumeOne (calculate f) = formatVolume (volOne (getValues f))
       \<and> edgeVol (getValues f) = 1 / 2 * (Tr (getValues f))\<^sup>2 * L (getValues f)
       \<and> 1 / 2 * (Tr (getValues f) * sqrt 2)\<^sup>2 * L (getValues f) = 2 * edgeVol (getValues f)
       \<and> app_volOne v =
           max 0 (app_L v * (app_W v * app_T v + app_Lw v * app_Lh v)
                  - 1 / 2 * (app_C v)\<^sup>2 * app_L v)
       \<and> volOne (getValues example_chamfer) = 98750000"
proof -
  have e: "edgeVol (getValues f) = 1 / 2 * (Tr (getValues f))\<^sup>2 * L (getValues f)"
    using assms(2) by (simp add: edgeVol_def power2_eq_square)
  have v: "volOne (getValues f) =
           max 0 (L (getValues f) * (W (getValues f) * T (getValues f)
                    + Lw (getValues f) * Lh (getValues f))
                  - 1 / 2 * (Tr (getValues f))\<^sup>2 * L (getValues f))"
    unfolding volOne_def baseVol_def e ..
  have c: "volumeOne (calculate f) = formatVolume (volOne (getValues f))"
    using assms(1) by (simp add: calculate_valid)
  have h: "1 / 2 * (Tr (getValues f) * sqrt 2)\<^sup>2 * L (getValues f) = 2 * edgeVol (getValues f)"
    unfolding e by (simp add: power_mult_distrib)
  have a: "app_volOne v =
           max 0 (app_L v * (app_W v * app_T v + app_Lw v * app_Lh v)
                  - 1 / 2 * (app_C v)\<^sup>2 * app_L v)"
    by (simp add: app_volOne_def app_baseVol_def app_chamferVol_def power2_eq_square)
  have x: "volOne (getValues example_chamfer) = 98750000"
    by (simp add: example_chamfer_def getValues_mk_form volOne_def baseVol_def edgeVol_def)
  from v c e h a x show ?thesis by blast
qed

theorem chamfer_volume_witness:
  "validate example_chamfer \<and> edge (getValues example_chamfer) = Chamfer
   \<and> volOne (getValues example_chamfer) = 98750000
   \<and> edgeVol (getValues example_chamfer) = 1250000
   \<and> volumeOne (calculate example_chamfer) = Fixed (98750000 / 1000000000)"
proof -
  have 1: "validate example_chamfer"
    by (simp add: example_chamfer_def validate_mk_form or_default_Num)
  have 2: "edge (getValues example_chamfer) = Chamfer"
    by (simp add: example_chamfer_def getValues_mk_form)
  note t = chamfer_volume [OF 1 2]
  have 3: "volOne (getValues example_chamfer) = 98750000"
    using t by blast
  have 4: "edgeVol (getValues example_chamfer) = 1250000"
    by (simp add: example_chamfer_def getValues_mk_form edgeVol_def)
  have 5: "volumeOne (calculate example_chamfer) = formatVolume (volOne (getValues example_chamfer))"
    using t by blast
  have 6: "volumeOne (calculate example_chamfer) = Fixed (98750000 / 1000000000)"
    unfolding 5 3 by (simp add: formatVolume_def)
  from 1 2 3 4 6 show ?thesis by blast
qed

text \<open>
  C2, as stated, at the documented scenario: the claim gives an edge removal of about
  536,516 and a final volume of about 99,463,484 cubic millimetres. The values the
  script computes there are more than 11 cubic millimetres away from both figures.
\<close>

theorem bullnose_figures_counterexample:
  "\<not> (\<bar>edgeVol (getValues example_bullnose) - 536516\<bar> \<le> 11
      \<or> \<bar>volOne (getValues example_bullnose) - 99463484\<bar> \<le> 11)"
  unfolding volOne_def baseVol_example_bullnose edgeVol_example_bullnose
  using pi_bounds by simp

text \<open>
  C2, amended. For every validated parameter set whose edge type is bullnose, the
  single-unit volume is \<open>max(0, L (W T + Lw Lh) - Tr\<^sup>2 (1 - pi/4) L)\<close>, and this is what
  \<open>calculate\<close> formats into the result element. For \<open>L = 1000\<close>, \<open>W = 700\<close>,
  \<open>T = 100\<close>, \<open>Lw = 150\<close>, \<open>Lh = 200\<close>, \<open>Tr = 50\<close> the edge removal lies between
  536,504 and 536,505 and the final volume between 99,463,495 and 99,463,496 cubic
  millimetres.
\<close>

theorem bullnose_volume:
  assumes "validate f" and "edge (getValues f) = Bullnose"
  shows "volOne (getValues f) =
           max 0 (L (getValues f) * (W (getValues f) * T (getValues f)
                    + Lw (getValues f) * Lh (getValues f))
                  - (Tr (getValues f))\<^sup>2 * (1 - pi / 4) * L (getValues f))
       \<and> volumeOne (calculate f) = formatVolume (volOne (getValues f))
       \<and> 536504 < edgeVol (getValues example_bullnose)
       \<and> edgeVol (getValues example_bullnose) < 536505
       \<and> 99463495 < volOne (getValues example_bullnose)
       \<and> volOne (getValues example_bullnose) < 99463496"
proof -
  have e: "edgeVol (getValues f) = (Tr (getValues f))\<^sup>2 * (1 - pi / 4) * L (getValues f)"
    using assms(2) by (simp add: edgeVol_def power2_eq_square)
  have v: "volOne (getValues f) =
           max 0 (L (getValues f) * (W (getValues f) * T (getValues f)
                    + Lw (getValues f) * Lh (getValues f))
                  - (Tr (getValues f))\<^sup>2 * (1 - pi / 4) * L (getValues f))"
    unfolding volOne_def baseVol_def e ..
  have c: "volumeOne (calculate f) = formatVolume (volOne (getValues f))"
    using assms(1) by (simp add: calculate_valid)
  have x1: "536504 < edgeVol (getValues example_bullnose)"
    and x2: "edgeVol (getValues example_bullnose) < 536505"
    unfolding edgeVol_example_bullnose using pi_bounds by simp_all
  have x3: "99463495 < volOne (getValues example_bullnose)"
    and x4: "volOne (getValues example_bullnose) < 99463496"
    unfolding volOne_def baseVol_example_bullnose edgeVol_example_bullnose
    using pi_bounds by simp_all
  from v c x1 x2 x3 x4 show ?thesis by blast
qed

theorem bullnose_volume_witness:
  "validate example_bullnose \<and> edge (getValues example_bullnose) = Bullnose
   \<and> volOne (getValues example_bullnose) = 97500000 + 625000 * pi
   \<and> volumeOne (calculate example_bullnose) = Fixed ((97500000 + 625000 * pi) / 1000000000)"
proof -
  have 1: "validate example_bullnose"
    by (rule validate_example_bullnose)
  have 2: "edge (getValues example_bullnose) = Bullnose"
    by (simp add: example_bullnose_def getValues_mk_form)
  note t = bullnose_volume [OF 1 2]
  have 3: "volOne (getValues example_bullnose) = 97500000 + 625000 * pi"
    unfolding volOne_def baseVol_example_bullnose edgeVol_example_bullnose
    using pi_bounds by simp
  have 5: "volumeOne (calculate example_bullnose) = formatVolume (volOne (getValues example_bullnose))"
    using t by blast
  have 6: "volumeOne (calculate example_bullnose) = Fixed ((97500000 + 625000 * pi) / 1000000000)"
    unfolding 5 3 using pi_bounds by (simp add: formatVolume_def)
  from 1 2 3 6 show ?thesis by blast
qed




text \<open>
  C4. For every valid parameter set with quantity \<open>n\<close> (then \<open>n\<close> is at least one), the
  total volume is the single-unit volume times \<open>n\<close>, with nothing else applied to it:
  the same form with quantity one is valid too, it has the same single-unit volume, its
  total is that single-unit volume, and that total times \<open>n\<close> is the total for \<open>n\<close>;
  \<open>calculate\<close> formats exactly the single-unit volume and this product. The older
  script, which does not validate, does the same for every form: its total is its
  single-unit volume times its quantity, the single-unit volume does not depend on the
  quantity, the total for quantity one is the single-unit volume, and \<open>calculate\<close>
  formats exactly the single-unit volume and the product.
\<close>

theorem quantity_linearity:
  assumes "validate f" and "qty (getValues f) = n"
  shows "1 \<le> n
       \<and> volTotal (getValues f) = volOne (getValues f) * real_of_int n
       \<and> validate (f\<lparr>quantity_field := Num 1\<rparr>)
       \<and> volTotal (getValues (f\<lparr>quantity_field := Num 1\<rparr>)) * real_of_int n
           = volTotal (getValues f)
       \<and> volumeTotal (calculate f)
           = formatVolume (volOne (getValues (f\<lparr>quantity_field := Num 1\<rparr>)) * real_of_int n)
       \<and> app_volTotal (app_getValues g)
           = app_volTotal (app_getValues (g\<lparr>app_quantity_field := Num 1\<rparr>))
             * real_of_int (app_qty (app_getValues g))
       \<and> volOne (getValues (f\<lparr>quantity_field := Num 1\<rparr>)) = volOne (getValues f)
       \<and> volTotal (getValues (f\<lparr>quantity_field := Num 1\<rparr>)) = volOne (getValues f)
       \<and> volumeOne (calculate f) = formatVolume (volOne (getValues f))
       \<and> app_volTotal (app_getValues g)
           = app_volOne (app_getValues g) * real_of_int (app_qty (app_getValues g))
       \<and> app_volOne (app_getValues (g\<lparr>app_quantity_field := Num 1\<rparr>))
           = app_volOne (app_getValues g)
       \<and> app_volTotal (app_getValues (g\<lparr>app_quantity_field := Num 1\<rparr>))
           = app_volOne (app_getValues g)
       \<and> app_calculate g
           = \<lparr> volumeOne = formatVolume (app_volOne (app_getValues g)),
               volumeTotal = formatVolume (app_volOne (app_getValues g)
                               * real_of_int (app_qty (app_getValues g))) \<rparr>"
proof -
  let ?f1 = "f\<lparr>quantity_field := Num 1\<rparr>"
  let ?g1 = "g\<lparr>app_quantity_field := Num 1\<rparr>"
  have g1: "getValues ?f1 = (getValues f)\<lparr>qty := 1\<rparr>"
    by (simp add: getValues_def getEdgeType_def or_default_Num)
  have one: "volOne (getValues ?f1) = volOne (getValues f)"
    unfolding g1 by (simp add: volOne_def baseVol_def edgeVol_def)
  have tot1: "volTotal (getValues ?f1) = volOne (getValues f)"
    unfolding volTotal_def one by (simp add: g1)
  have a: "1 \<le> n"
    using assms by (simp add: validate_iff)
  have b: "volTotal (getValues f) = volOne (getValues f) * real_of_int n"
    using assms(2) by (simp add: volTotal_def)
  have c: "validate ?f1"
    using assms(1) unfolding validate_iff g1 by simp
  have d: "volTotal (getValues ?f1) * real_of_int n = volTotal (getValues f)"
    unfolding tot1 b ..
  have e: "volumeTotal (calculate f) = formatVolume (volOne (getValues ?f1) * real_of_int n)"
    unfolding one using assms(1) b by (simp add: calculate_valid)
  have o: "volumeOne (calculate f) = formatVolume (volOne (getValues f))"
    using assms(1) by (simp add: calculate_valid)
  have h1: "app_getValues ?g1 = (app_getValues g)\<lparr>app_qty := 1\<rparr>"
    by (simp add: app_getValues_def or_default_Num)
  have p: "app_volTotal (app_getValues g)
           = app_volOne (app_getValues g) * real_of_int (app_qty (app_getValues g))"
    by (simp add: app_volTotal_def)
  have q: "app_volOne (app_getValues ?g1) = app_volOne (app_getValues g)"
    unfolding h1 by (simp add: app_volOne_def app_baseVol_def app_chamferVol_def)
  have r: "app_volTotal (app_getValues ?g1) = app_volOne (app_getValues g)"
    unfolding app_volTotal_def q by (simp add: h1)
  have h: "app_volTotal (app_getValues g)
           = app_volTotal (app_getValues ?g1) * real_of_int (app_qty (app_getValues g))"
    unfolding r p ..
  have k: "app_calculate g
           = \<lparr> volumeOne = formatVolume (app_volOne (app_getValues g)),
               volumeTotal = formatVolume (app_volOne (app_getValues g)
                               * real_of_int (app_qty (app_getValues g))) \<rparr>"
    by (simp add: app_calculate_def Let_def p)
  from a b c d e h one tot1 o p q r k show ?thesis by blast
qed

theorem quantity_linearity_witness:
  "validate example_batch \<and> qty (getValues example_batch) = 3
   \<and> volTotal (getValues example_batch) = 296250000
   \<and> volTotal (getValues (example_batch\<lparr>quantity_field := Num 1\<rparr>)) = 98750000
   \<and> volumeOne (calculate example_batch) = Fixed (98750000 / 1000000000)
   \<and> volumeTotal (calculate example_batch) = Fixed (296250000 / 1000000000)
   \<and> app_qty (app_getValues example_app_batch) = 3
   \<and> app_volOne (app_getValues example_app_batch) = 98750000
   \<and> app_volTotal (app_getValues example_app_batch) = 296250000
   \<and> app_volTotal (app_getValues (example_app_batch\<lparr>app_quantity_field := Num 1\<rparr>)) = 98750000
   \<and> app_calculate example_app_batch
       = \<lparr> volumeOne = Fixed (98750000 / 1000000000),
           volumeTotal = Fixed (296250000 / 1000000000) \<rparr>"
proof -
  have 1: "validate example_batch"
    by (simp add: example_batch_def validate_mk_form or_default_Num)
  have 2: "qty (getValues example_batch) = 3"
    by (simp add: example_batch_def getValues_mk_form or_default_Num)
  note t = quantity_linearity [OF 1 2, of example_app_batch]
  have 3: "volOne (getValues example_batch) = 98750000"
    by (simp add: example_batch_def getValues_mk_form volOne_def baseVol_def edgeVol_def)
  have 4: "volTotal (getValues example_batch) = 296250000"
    using t 3 by simp
  have 5: "volTotal (getValues (example_batch\<lparr>quantity_field := Num 1\<rparr>)) = 98750000"
    using t 3 by simp
  have 6: "volumeOne (calculate example_batch) = formatVolume 98750000"
    using t 3 by simp
  have 7: "volumeTotal (calculate example_batch) = formatVolume (98750000 * 3)"
    using t 3 by simp
  have g: "app_getValues example_app_batch =
     \<lparr> app_L = 1000, app_W = 700, app_T = 100, app_Lw = 150, app_Lh = 200,
       app_C = 50, app_qty = 3 \<rparr>"
    by (simp add: example_app_batch_def app_getValues_def or_default_Num)
  have 8: "app_qty (app_getValues example_app_batch) = 3"
    unfolding g by simp
  have 9: "app_volOne (app_getValues example_app_batch) = 98750000"
    unfolding g by (simp add: app_volOne_def app_baseVol_def app_chamferVol_def)
  have 10: "app_volTotal (app_getValues example_app_batch) = 296250000"
    using t 8 9 by simp
  have 11: "app_volTotal (app_getValues (example_app_batch\<lparr>app_quantity_field := Num 1\<rparr>))
            = 98750000"
    using t 9 by simp
  have 12: "app_calculate example_app_batch
            = \<lparr> volumeOne = formatVolume 98750000, volumeTotal = formatVolume (98750000 * 3) \<rparr>"
    using t 8 9 by simp
  have f1: "formatVolume 98750000 = Fixed (98750000 / 1000000000)"
    and f3: "formatVolume (98750000 * 3) = Fixed (296250000 / 1000000000)"
    by (simp_all add: formatVolume_def)
  from 1 2 4 5 6 7 8 9 10 11 12 show ?thesis
    unfolding f1 f3 by blast
qed

text \<open>
  C5. For every valid parameter set whose edge depth is zero, the edge removal is zero
  and the single-unit volume is \<open>L (W T + Lw Lh)\<close>, whichever edge type is selected;
  \<open>calculate\<close> formats exactly this value.
\<close>

theorem zero_edge_depth:
  assumes "validate f" and "Tr (getValues f) = 0"
  shows "edgeVol (getValues f) = 0
       \<and> volOne (getValues f)
           = L (getValues f) * (W (getValues f) * T (getValues f)
               + Lw (getValues f) * Lh (getValues f))
       \<and> volOne (getValues (f\<lparr>edgeBullnose_checked := b\<rparr>))
           = L (getValues f) * (W (getValues f) * T (getValues f)
               + Lw (getValues f) * Lh (getValues f))
       \<and> volumeOne (calculate f)
           = formatVolume (L (getValues f) * (W (getValues f) * T (getValues f)
               + Lw (getValues f) * Lh (getValues f)))"
proof -
  let ?fb = "f\<lparr>edgeBullnose_checked := b\<rparr>"
  have pos: "0 < baseVol (getValues f)"
    using assms(1) by (rule baseVol_pos)
  have e: "edgeVol (getValues f) = 0"
    using assms(2) by (simp add: edgeVol_def)
  have v: "volOne (getValues f)
           = L (getValues f) * (W (getValues f) * T (getValues f)
               + Lw (getValues f) * Lh (getValues f))"
    using pos unfolding volOne_def e by (simp add: baseVol_def)
  have gb: "getValues ?fb = (getValues f)\<lparr>edge := (if b then Bullnose else Chamfer)\<rparr>"
    by (simp add: getValues_def getEdgeType_def)
  have eb: "edgeVol (getValues ?fb) = 0"
    unfolding gb using assms(2) by (simp add: edgeVol_def)
  have bb: "baseVol (getValues ?fb) = baseVol (getValues f)"
    unfolding gb by (simp add: baseVol_def)
  have vb: "volOne (getValues ?fb)
           = L (getValues f) * (W (getValues f) * T (getValues f)
               + Lw (getValues f) * Lh (getValues f))"
    using pos unfolding volOne_def eb bb by (simp add: baseVol_def)
  have c: "volumeOne (calculate f)
           = formatVolume (L (getValues f) * (W (getValues f) * T (getValues f)
               + Lw (getValues f) * Lh (getValues f)))"
    using assms(1) v by (simp add: calculate_valid)
  from e v vb c show ?thesis by blast
qed

theorem zero_edge_depth_witness:
  "validate example_sharp \<and> Tr (getValues example_sharp) = 0
   \<and> volOne (getValues example_sharp) = 100000000
   \<and> volOne (getValues (example_sharp\<lparr>edgeBullnose_checked := False\<rparr>)) = 100000000"
proof -
  have 1: "validate example_sharp"
    by (simp add: example_sharp_def validate_mk_form or_default_Num)
  have 2: "Tr (getValues example_sharp) = 0"
    by (simp add: example_sharp_def getValues_mk_form)
  note t = zero_edge_depth [OF 1 2, of False]
  have 3: "L (getValues example_sharp) * (W (getValues example_sharp) * T (getValues example_sharp)
               + Lw (getValues example_sharp) * Lh (getValues example_sharp)) = 100000000"
    by (simp add: example_sharp_def getValues_mk_form)
  from t 1 2 show ?thesis unfolding 3 by blast
qed

text \<open>
  C6. For every edge depth \<open>Tr > 0\<close> and length \<open>L > 0\<close>, the chamfer removal
  \<open>Tr\<^sup>2 L / 2\<close> is strictly greater than the bullnose removal \<open>Tr\<^sup>2 (1 - pi/4) L\<close>; so,
  the other parameters being the same, the bullnose volume is strictly larger than the
  chamfer volume when both are positive.
\<close>

theorem chamfer_removes_more:
  assumes "0 < Tr v" and "0 < L v"
  shows "edgeVol (v\<lparr>edge := Bullnose\<rparr>) < edgeVol (v\<lparr>edge := Chamfer\<rparr>)
       \<and> edgeVol (v\<lparr>edge := Chamfer\<rparr>) = 1 / 2 * (Tr v)\<^sup>2 * L v
       \<and> edgeVol (v\<lparr>edge := Bullnose\<rparr>) = (Tr v)\<^sup>2 * (1 - pi / 4) * L v
       \<and> (0 < volOne (v\<lparr>edge := Chamfer\<rparr>) \<and> 0 < volOne (v\<lparr>edge := Bullnose\<rparr>)
            \<longrightarrow> volOne (v\<lparr>edge := Chamfer\<rparr>) < volOne (v\<lparr>edge := Bullnose\<rparr>))"
proof -
  have c: "edgeVol (v\<lparr>edge := Chamfer\<rparr>) = 1 / 2 * (Tr v)\<^sup>2 * L v"
    by (simp add: edgeVol_def power2_eq_square)
  have b: "edgeVol (v\<lparr>edge := Bullnose\<rparr>) = (Tr v)\<^sup>2 * (1 - pi / 4) * L v"
    by (simp add: edgeVol_def power2_eq_square)
  have k: "0 < (Tr v)\<^sup>2 * L v"
    using assms by simp
  have "1 - pi / 4 < (1 / 2 :: real)"
    using pi_bounds(1) by simp
  then have "(1 - pi / 4) * ((Tr v)\<^sup>2 * L v) < 1 / 2 * ((Tr v)\<^sup>2 * L v)"
    using k by (rule mult_strict_right_mono)
  then have lt: "edgeVol (v\<lparr>edge := Bullnose\<rparr>) < edgeVol (v\<lparr>edge := Chamfer\<rparr>)"
    unfolding c b by (simp add: mult.commute mult.left_commute)
  have bv: "baseVol (v\<lparr>edge := Chamfer\<rparr>) = baseVol (v\<lparr>edge := Bullnose\<rparr>)"
    by (simp add: baseVol_def)
  have vol: "0 < volOne (v\<lparr>edge := Chamfer\<rparr>) \<and> 0 < volOne (v\<lparr>edge := Bullnose\<rparr>)
            \<longrightarrow> volOne (v\<lparr>edge := Chamfer\<rparr>) < volOne (v\<lparr>edge := Bullnose\<rparr>)"
    using lt unfolding volOne_def bv by auto
  from lt c b vol show ?thesis by blast
qed

theorem chamfer_removes_more_witness:
  "0 < Tr (getValues example_chamfer) \<and> 0 < L (getValues example_chamfer)
   \<and> edgeVol (getValues example_bullnose) < edgeVol (getValues example_chamfer)
   \<and> volOne (getValues example_chamfer) < volOne (getValues example_bullnose)"
proof -
  have 1: "0 < Tr (getValues example_chamfer)" and 2: "0 < L (getValues example_chamfer)"
    by (simp_all add: example_chamfer_def getValues_mk_form)
  have c: "(getValues example_chamfer)\<lparr>edge := Chamfer\<rparr> = getValues example_chamfer"
    by (simp add: example_chamfer_def getValues_mk_form)
  have b: "(getValues example_chamfer)\<lparr>edge := Bullnose\<rparr> = getValues example_bullnose"
    by (simp add: example_chamfer_def example_bullnose_def getValues_mk_form)
  note t = chamfer_removes_more [OF 1 2, unfolded c b]
  have pc: "0 < volOne (getValues example_chamfer)"
    by (simp add: example_chamfer_def getValues_mk_form volOne_def baseVol_def edgeVol_def)
  have pb: "0 < volOne (getValues example_bullnose)"
    unfolding volOne_def baseVol_example_bullnose edgeVol_example_bullnose
    using pi_bounds by simp
  from t 1 2 pc pb show ?thesis by blast
qed

text \<open>
  C7, as stated, at lip width 100 and flat thickness 100: the radius that the auto-fit
  button delivers (the edge depth of the form after the click) is 59, and the circle of
  radius 59 does not pass through the inner lip corner: the distance from its centre to
  that corner is not 59.
\<close>

theorem autoFit_rounds_counterexample:
  "Lw (getValues (autoFit example_autofit)) = 100
   \<and> T (getValues (autoFit example_autofit)) = 100
   \<and> Tr (getValues (autoFit example_autofit)) = 59
   \<and> sqrt ((Lw (getValues (autoFit example_autofit)) - Tr (getValues (autoFit example_autofit)))\<^sup>2
         + (T (getValues (autoFit example_autofit)) - Tr (getValues (autoFit example_autofit)))\<^sup>2)
       \<noteq> Tr (getValues (autoFit example_autofit))"
proof -
  have g: "getValues (autoFit example_autofit) =
     \<lparr> L = 1000, W = 700, T = 100, Lw = 100, Lh = 200, Tr = 59, qty = 1, edge = Bullnose \<rparr>"
    by (simp add: example_autofit_def autoFit_mk_form js_round_autoFit_100
        getValues_mk_form or_default_Num)
  have "sqrt ((100 - 59)\<^sup>2 + (100 - 59)\<^sup>2) \<noteq> (59 :: real)"
  proof
    assume "sqrt ((100 - 59)\<^sup>2 + (100 - 59)\<^sup>2) = (59 :: real)"
    then have "(sqrt ((100 - 59)\<^sup>2 + (100 - 59)\<^sup>2))\<^sup>2 = (59 :: real)\<^sup>2"
      by simp
    then show False
      by (simp add: power2_eq_square)
  qed
  then show ?thesis
    unfolding g by simp
qed

text \<open>
  C7, amended. For all \<open>Lw > 0\<close> and \<open>T > 0\<close> in the form, the auto-fit handler
  computes \<open>Tr = Lw + T - sqrt (2 Lw T)\<close>; this closed form satisfies the round-trip
  equation \<open>sqrt ((Lw - Tr)\<^sup>2 + (T - Tr)\<^sup>2) = Tr\<close>; what the handler stores as the edge
  depth is \<open>Math.round(Tr)\<close>, an integer at most one half away from \<open>Tr\<close>. For
  \<open>Lw = 100\<close>, \<open>T = 100\<close> the closed form lies between 58.578 and 58.579 and the
  stored edge depth is 59.
\<close>

theorem autoFit_closed_form:
  assumes "0 < lw" and "0 < t"
    and "or_default (lipWidth_field f) 0 = lw"
    and "or_default (flatThickness_field f) 0 = t"
  shows "autoFit_Tr lw t = lw + t - sqrt (2 * lw * t)
       \<and> sqrt ((lw - autoFit_Tr lw t)\<^sup>2 + (t - autoFit_Tr lw t)\<^sup>2) = autoFit_Tr lw t
       \<and> autoFit f = f\<lparr> chamfer_field := Num (real_of_int (js_round (autoFit_Tr lw t))) \<rparr>
       \<and> \<bar>real_of_int (js_round (autoFit_Tr lw t)) - autoFit_Tr lw t\<bar> \<le> 1 / 2
       \<and> 58.578 < autoFit_Tr 100 100 \<and> autoFit_Tr 100 100 < 58.579
       \<and> js_round (autoFit_Tr 100 100) = 59"
proof -
  have a: "autoFit_Tr lw t = lw + t - sqrt (2 * lw * t)"
    by (simp add: autoFit_Tr_def)
  have b: "sqrt ((lw - autoFit_Tr lw t)\<^sup>2 + (t - autoFit_Tr lw t)\<^sup>2) = autoFit_Tr lw t"
    using assms(1,2) by (rule autoFit_Tr_roundtrip)
  have c: "autoFit f = f\<lparr> chamfer_field := Num (real_of_int (js_round (autoFit_Tr lw t))) \<rparr>"
    using assms by (simp add: autoFit_def Let_def)
  have d: "\<bar>real_of_int (js_round (autoFit_Tr lw t)) - autoFit_Tr lw t\<bar> \<le> 1 / 2"
    unfolding js_round_def by linarith
  have e: "58.578 < autoFit_Tr 100 100" "autoFit_Tr 100 100 < 58.579"
    unfolding autoFit_Tr_100 using sqrt_20000_bounds by simp_all
  from a b c d e js_round_autoFit_100 show ?thesis by blast
qed

theorem autoFit_closed_form_witness:
  "sqrt ((100 - autoFit_Tr 100 100)\<^sup>2 + (100 - autoFit_Tr 100 100)\<^sup>2) = autoFit_Tr 100 100
   \<and> autoFit example_autofit = example_autofit\<lparr> chamfer_field := Num 59 \<rparr>"
proof -
  have 1: "(0 :: real) < 100"
    by simp
  have 2: "or_default (lipWidth_field example_autofit) 0 = 100"
    and 3: "or_default (flatThickness_field example_autofit) 0 = 100"
    by (simp_all add: example_autofit_def mk_form_def)
  note t = autoFit_closed_form [OF 1 1 2 3]
  have r: "js_round (autoFit_Tr 100 100) = 59"
    using t by blast
  have "autoFit example_autofit
        = example_autofit\<lparr> chamfer_field := Num (real_of_int (js_round (autoFit_Tr 100 100))) \<rparr>"
    using t by blast
  then have "autoFit example_autofit = example_autofit\<lparr> chamfer_field := Num 59 \<rparr>"
    unfolding r by simp
  with t show ?thesis by blast
qed

text \<open>
  C8, as stated, at the documented chamfer scenario (\<open>Tr = 50\<close>, significant in both
  views): the claim gives six plus two vertices; the cross-section of the isometric view
  and the 2D outline both have seven.
\<close>

theorem chamfer_vertex_count_counterexample:
  "0 < Tr (getValues example_chamfer)
   \<and> 0.5 < sTr (getValues example_chamfer)
   \<and> edge (getValues example_chamfer) = Chamfer
   \<and> length (csTop (getValues example_chamfer)) \<noteq> 6 + 2
   \<and> vertex_count (path (getValues example_chamfer)) \<noteq> 6 + 2"
proof -
  have g: "getValues example_chamfer =
     \<lparr> L = 1000, W = 700, T = 100, Lw = 150, Lh = 200, Tr = 50, qty = 1, edge = Chamfer \<rparr>"
    by (simp add: example_chamfer_def getValues_mk_form or_default_Num)
  have s: "sTr (getValues example_chamfer) = 50 * (81 / 140)"
    unfolding g sTr_def scale_documented by simp
  have l: "length (csTop (getValues example_chamfer)) = 7"
    unfolding g by (simp add: csTop_def)
  have p: "vertex_count (path (getValues example_chamfer)) = 7"
    unfolding vertex_count_path s by simp
  show ?thesis
    unfolding l p s by (simp add: g)
qed

text \<open>
  C8, amended. The cross-section of the isometric view has six vertices when the edge
  depth is not positive; seven (six plus one) for a chamfer with positive edge depth,
  where the top-outer corner \<open>(W, T)\<close> is replaced by the two vertices
  \<open>(W - Tr, T)\<close> and \<open>(W, T - Tr)\<close>; and six plus the 12 arc subdivisions for a
  bullnose with positive edge depth, where that corner is replaced by the 13 sample
  points of the arc, the first \<open>(W - Tr, T)\<close> and the last \<open>(W, T - Tr)\<close>. The 2D
  outline has six points when the scaled edge depth is at most half a pixel and seven
  otherwise (for a bullnose the two points that replace the corner are joined by one arc
  command, not by sampled segments). \<open>drawIsometric\<close> builds its cross-section
  whenever \<open>W\<close>, \<open>T\<close> and \<open>L\<close> are positive, \<open>drawCrossSection\<close> its outline
  whenever \<open>W\<close> and \<open>T\<close> are.
\<close>

theorem cross_section_vertex_count:
  "length (csTop v) =
     (if Tr v > 0 then (if edge v = Bullnose then 6 + segments else 6 + 1) else 6)
   \<and> segments = 12
   \<and> (0 < Tr v \<and> edge v = Chamfer \<longrightarrow>
        csTop v = take 1 (csTop (v\<lparr>Tr := 0\<rparr>))
                  @ [(W v - Tr v, T v), (W v, T v - Tr v)]
                  @ drop 2 (csTop (v\<lparr>Tr := 0\<rparr>)))
   \<and> (0 < Tr v \<and> edge v = Bullnose \<longrightarrow>
        csTop v = take 1 (csTop (v\<lparr>Tr := 0\<rparr>))
                  @ map (arcPoint v) [0 ..< Suc segments]
                  @ drop 2 (csTop (v\<lparr>Tr := 0\<rparr>)))
   \<and> arcPoint v 0 = (W v - Tr v, T v)
   \<and> arcPoint v segments = (W v, T v - Tr v)
   \<and> vertex_count (path v) = (if sTr v > 0.5 then 6 + 1 else 6)
   \<and> (0 < W (getValues f) \<and> 0 < T (getValues f) \<and> 0 < L (getValues f) \<longrightarrow>
        drawIsometric_csTop f = Some (csTop (getValues f)))
   \<and> (0 < W (getValues f) \<and> 0 < T (getValues f) \<longrightarrow>
        drawCrossSection_path f = Some (path (getValues f)))"
proof -
  have i: "0 < W (getValues f) \<and> 0 < T (getValues f) \<and> 0 < L (getValues f) \<longrightarrow>
        drawIsometric_csTop f = Some (csTop (getValues f))"
    by (simp add: drawIsometric_csTop_def Let_def)
  have p: "0 < W (getValues f) \<and> 0 < T (getValues f) \<longrightarrow>
        drawCrossSection_path f = Some (path (getValues f))"
    by (simp add: drawCrossSection_path_def Let_def)
  have c: "0 < Tr v \<and> edge v = Chamfer \<longrightarrow>
        csTop v = take 1 (csTop (v\<lparr>Tr := 0\<rparr>))
                  @ [(W v - Tr v, T v), (W v, T v - Tr v)]
                  @ drop 2 (csTop (v\<lparr>Tr := 0\<rparr>))"
    by (simp add: csTop_def)
  have b: "0 < Tr v \<and> edge v = Bullnose \<longrightarrow>
        csTop v = take 1 (csTop (v\<lparr>Tr := 0\<rparr>))
                  @ map (arcPoint v) [0 ..< Suc segments]
                  @ drop 2 (csTop (v\<lparr>Tr := 0\<rparr>))"
    by (simp add: csTop_def)
  have s: "segments = 12"
    by (simp add: segments_def)
  from length_csTop [of v] s c b arcPoint_ends [of v] vertex_count_path [of v] i p
  show ?thesis by blast
qed

theorem cross_section_vertex_count_witness:
  "length (csTop (getValues example_sharp)) = 6
   \<and> length (csTop (getValues example_chamfer)) = 7
   \<and> length (csTop (getValues example_bullnose)) = 18
   \<and> vertex_count (path (getValues example_sharp)) = 6
   \<and> vertex_count (path (getValues example_chamfer)) = 7
   \<and> vertex_count (path (getValues example_bullnose)) = 7
   \<and> drawIsometric_csTop example_chamfer = Some (csTop (getValues example_chamfer))
   \<and> drawCrossSection_path example_chamfer = Some (path (getValues example_chamfer))"
proof -
  have gs: "getValues example_sharp =
     \<lparr> L = 1000, W = 700, T = 100, Lw = 150, Lh = 200, Tr = 0, qty = 1, edge = Bullnose \<rparr>"
    by (simp add: example_sharp_def getValues_mk_form or_default_Num)
  have gc: "getValues example_chamfer =
     \<lparr> L = 1000, W = 700, T = 100, Lw = 150, Lh = 200, Tr = 50, qty = 1, edge = Chamfer \<rparr>"
    by (simp add: example_chamfer_def getValues_mk_form or_default_Num)
  have gb: "getValues example_bullnose =
     \<lparr> L = 1000, W = 700, T = 100, Lw = 150, Lh = 200, Tr = 50, qty = 1, edge = Bullnose \<rparr>"
    by (simp add: example_bullnose_def getValues_mk_form or_default_Num)
  have ss: "sTr (getValues example_sharp) = 0"
    and sc: "sTr (getValues example_chamfer) = 50 * (81 / 140)"
    and sb: "sTr (getValues example_bullnose) = 50 * (81 / 140)"
    unfolding gs gc gb sTr_def scale_documented by simp_all
  note ts = cross_section_vertex_count [of "getValues example_sharp" example_sharp]
  note tc = cross_section_vertex_count [of "getValues example_chamfer" example_chamfer]
  note tb = cross_section_vertex_count [of "getValues example_bullnose" example_bullnose]
  note last = conjunct2 [THEN conjunct2, THEN conjunct2, THEN conjunct2, THEN conjunct2,
    THEN conjunct2, THEN conjunct1]
  have 1: "length (csTop (getValues example_sharp)) = 6"
    using ts [THEN conjunct1] by (simp add: gs)
  have 2: "length (csTop (getValues example_chamfer)) = 7"
    using tc [THEN conjunct1] by (simp add: gc)
  have 3: "length (csTop (getValues example_bullnose)) = 18"
    using tb [THEN conjunct1] tb [THEN conjunct2, THEN conjunct1] by (simp add: gb)
  have 4: "vertex_count (path (getValues example_sharp)) = 6"
    using ts [THEN last] by (simp add: ss)
  have 5: "vertex_count (path (getValues example_chamfer)) = 7"
    using tc [THEN last] by (simp add: sc)
  have 6: "vertex_count (path (getValues example_bullnose)) = 7"
    using tb [THEN last] by (simp add: sb)
  have 7: "drawIsometric_csTop example_chamfer = Some (csTop (getValues example_chamfer))"
    using tc [THEN conjunct2, THEN conjunct2, THEN conjunct2, THEN conjunct2, THEN conjunct2,
      THEN conjunct2, THEN conjunct2, THEN conjunct1]
    by (simp add: gc)
  have 8: "drawCrossSection_path example_chamfer = Some (path (getValues example_chamfer))"
    using tc [THEN conjunct2, THEN conjunct2, THEN conjunct2, THEN conjunct2, THEN conjunct2,
      THEN conjunct2, THEN conjunct2, THEN conjunct2]
    by (simp add: gc)
  from 1 2 3 4 5 6 7 8 show ?thesis by blast
qed

text \<open>
  C9. A quantity field that parses to \<open>NaN\<close> or to 0 becomes the quantity 1 before
  validation: the quantity message is not in the list of violations, validation and
  calculation behave as for the quantity 1 (so the form is accepted when the other
  fields are valid) and the total volume is the single-unit volume. For any form, the
  quantity message is reported exactly when the quantity field parses to a negative
  integer.
\<close>

theorem zero_quantity_defaults_to_one:
  assumes "quantity_field f = NaN \<or> quantity_field f = Num 0"
  shows "qty (getValues f) = 1
       \<and> QuantityBelowOne \<notin> set (validate_errors f)
       \<and> validate_errors f = validate_errors (f\<lparr>quantity_field := Num 1\<rparr>)
       \<and> validate f = validate (f\<lparr>quantity_field := Num 1\<rparr>)
       \<and> calculate f = calculate (f\<lparr>quantity_field := Num 1\<rparr>)
       \<and> volTotal (getValues f) = volOne (getValues f)
       \<and> (QuantityBelowOne \<in> set (validate_errors g)
            \<longleftrightarrow> (\<exists>n. quantity_field g = Num n \<and> n < 0))"
proof -
  let ?f1 = "f\<lparr>quantity_field := Num 1\<rparr>"
  have g: "getValues f = getValues ?f1"
    using assms by (rule getValues_quantity_default)
  have q: "qty (getValues f) = 1"
    unfolding g by (simp add: getValues_def or_default_Num)
  have n: "QuantityBelowOne \<notin> set (validate_errors f)"
    unfolding member_validate_errors q by simp
  have e: "validate_errors f = validate_errors ?f1"
    unfolding validate_errors_def g ..
  have v: "validate f = validate ?f1"
    unfolding validate_def e ..
  have c: "calculate f = calculate ?f1"
    unfolding calculate_def v g ..
  have t: "volTotal (getValues f) = volOne (getValues f)"
    unfolding volTotal_def q by simp
  have r: "QuantityBelowOne \<in> set (validate_errors g)
            \<longleftrightarrow> (\<exists>n. quantity_field g = Num n \<and> n < 0)"
    unfolding member_validate_errors
    by (cases "quantity_field g") (auto simp: getValues_def or_default_def)
  from q n e v c t r show ?thesis by blast
qed

theorem zero_quantity_defaults_to_one_witness:
  "quantity_field example_zero_quantity = Num 0
   \<and> validate example_zero_quantity
   \<and> volumeOne (calculate example_zero_quantity) = Fixed (98750000 / 1000000000)
   \<and> volumeTotal (calculate example_zero_quantity) = Fixed (98750000 / 1000000000)
   \<and> validate_errors example_negative_quantity = [QuantityBelowOne]"
proof -
  have 0: "quantity_field example_zero_quantity = Num 0"
    by (simp add: example_zero_quantity_def mk_form_def)
  then have h: "quantity_field example_zero_quantity = NaN \<or> quantity_field example_zero_quantity = Num 0"
    by simp
  note t = zero_quantity_defaults_to_one [OF h]
  have f1: "example_zero_quantity\<lparr>quantity_field := Num 1\<rparr> = example_chamfer"
    by (simp add: example_zero_quantity_def example_chamfer_def mk_form_def)
  have vc: "validate example_chamfer"
    by (simp add: example_chamfer_def validate_mk_form or_default_Num)
  have 1: "validate example_zero_quantity"
    using t vc unfolding f1 by blast
  have vo: "volOne (getValues example_zero_quantity) = 98750000"
    by (simp add: example_zero_quantity_def getValues_mk_form volOne_def baseVol_def edgeVol_def)
  have vt: "volTotal (getValues example_zero_quantity) = 98750000"
    using t vo by simp
  have 2: "volumeOne (calculate example_zero_quantity) = Fixed (98750000 / 1000000000)"
    and 3: "volumeTotal (calculate example_zero_quantity) = Fixed (98750000 / 1000000000)"
    unfolding calculate_valid [OF 1] vo vt by (simp_all add: formatVolume_def)
  have 4: "validate_errors example_negative_quantity = [QuantityBelowOne]"
    by (simp add: example_negative_quantity_def validate_errors_mk_form or_default_Num)
  from 0 1 2 3 4 show ?thesis by blast
qed

text \<open>
  C10. The parameter set \<open>L = 1000\<close>, \<open>W = 1\<close>, \<open>T = 100\<close>, \<open>Lw = 0.5\<close>,
  \<open>Lh = 1\<close>, \<open>Tr = 99\<close>, chamfer, passes validation although its edge depth exceeds
  its width; its edge removal 4,900,500 exceeds its base volume 100,500, the clamp makes
  the single-unit volume exactly 0, and both result elements show the placeholder dash.
\<close>

theorem clamp_after_validation:
  "validate example_thin
   \<and> validate_errors example_thin = []
   \<and> W (getValues example_thin) < Tr (getValues example_thin)
   \<and> baseVol (getValues example_thin) = 100500
   \<and> edgeVol (getValues example_thin) = 4900500
   \<and> volOne (getValues example_thin) = 0
   \<and> formatVolume (volOne (getValues example_thin)) = Dash
   \<and> calculate example_thin = \<lparr> volumeOne = Dash, volumeTotal = Dash \<rparr>"
proof -
  have g: "getValues example_thin =
     \<lparr> L = 1000, W = 1, T = 100, Lw = 0.5, Lh = 1, Tr = 99, qty = 1, edge = Chamfer \<rparr>"
    by (simp add: example_thin_def getValues_mk_form or_default_Num)
  have v: "validate example_thin"
    by (simp add: example_thin_def validate_mk_form or_default_Num)
  then have e: "validate_errors example_thin = []"
    by (simp add: validate_def)
  have b: "baseVol (getValues example_thin) = 100500"
    unfolding g by (simp add: baseVol_def)
  have d: "edgeVol (getValues example_thin) = 4900500"
    unfolding g by (simp add: edgeVol_def)
  have o: "volOne (getValues example_thin) = 0"
    unfolding volOne_def b d by simp
  have t: "volTotal (getValues example_thin) = 0"
    unfolding volTotal_def o by simp
  have f: "formatVolume (volOne (getValues example_thin)) = Dash"
    unfolding o by (simp add: formatVolume_def)
  have c: "calculate example_thin = \<lparr> volumeOne = Dash, volumeTotal = Dash \<rparr>"
    unfolding calculate_valid [OF v] o t by (simp add: formatVolume_def)
  have w: "W (getValues example_thin) < Tr (getValues example_thin)"
    unfolding g by simp
  from v e w b d o f c show ?thesis by blast
qed

end
